theory Spec2Isabelle
  imports Main
begin

section \<open>JavaScript values, as far as the GitHub client observes them\<close>

text \<open>
  The client (\<^verbatim>\<open>services/github.ts\<close>) receives whatever the backend's JSON body parses
  to and hands it on untyped (\<^verbatim>\<open>const data = await response.json(); return data\<close>), so a
  result is a JSON value, not a typed record. Numbers are the integers whose JavaScript
  rendering is the plain decimal one (magnitude below \<open>10^21\<close>); no property below
  depends on a number.
\<close>

datatype json =
    JNull
  | JBool bool
  | JNum int
  | JStr string
  | JArr "json list"
  | JObj "(string \<times> json) list"

text \<open>
  What a \<^verbatim>\<open>throw\<close> or a rejected promise carries: an \<^verbatim>\<open>Error\<close> instance with its
  \<^verbatim>\<open>message\<close>, or any other value (the source tests \<^verbatim>\<open>error instanceof Error\<close>).
\<close>

datatype thrown = Error string | Thrown json

text \<open>Truthiness; \<open>None\<close> stands for \<^verbatim>\<open>undefined\<close>.\<close>

fun truthy :: "json \<Rightarrow> bool" where
  "truthy JNull = False"
| "truthy (JBool b) = b"
| "truthy (JNum n) = (n \<noteq> 0)"
| "truthy (JStr s) = (s \<noteq> [])"
| "truthy (JArr xs) = True"
| "truthy (JObj ps) = True"

fun truthy_opt :: "json option \<Rightarrow> bool" where
  "truthy_opt None = False"
| "truthy_opt (Some v) = truthy v"

text \<open>\<^verbatim>\<open>a || b\<close> with a defined right operand.\<close>

definition js_or :: "json option \<Rightarrow> json \<Rightarrow> json" where
  "js_or a b = (case a of None \<Rightarrow> b | Some v \<Rightarrow> if truthy v then v else b)"

text \<open>The string conversion that \<^verbatim>\<open>new Error(v)\<close> applies to its argument.\<close>

definition digit_char :: "nat \<Rightarrow> char" where
  "digit_char d = ''0123456789'' ! d"

fun show_nat :: "nat \<Rightarrow> string" where
  "show_nat n =
     (if n < 10 then [digit_char n] else show_nat (n div 10) @ [digit_char (n mod 10)])"

definition show_int :: "int \<Rightarrow> string" where
  "show_int i = (if i < 0 then ''-'' @ show_nat (nat (- i)) else show_nat (nat i))"

fun join_comma :: "string list \<Rightarrow> string" where
  "join_comma [] = []"
| "join_comma [s] = s"
| "join_comma (s # t # ss) = s @ '','' @ join_comma (t # ss)"

fun to_string :: "json \<Rightarrow> string" where
  "to_string JNull = ''null''"
| "to_string (JBool b) = (if b then ''true'' else ''false'')"
| "to_string (JNum n) = show_int n"
| "to_string (JStr s) = s"
| "to_string (JArr xs) = join_comma (map (\<lambda>x. if x = JNull then [] else to_string x) xs)"
| "to_string (JObj ps) = ''[object Object]''"

definition new_Error :: "json \<Rightarrow> thrown" where
  "new_Error v = Error (to_string v)"

text \<open>
  Reading a property that no prototype defines (\<^verbatim>\<open>detail\<close>, \<^verbatim>\<open>success\<close>,
  \<^verbatim>\<open>error\<close>, \<^verbatim>\<open>repositories\<close>): on \<^verbatim>\<open>null\<close> it throws a TypeError, on an object
  it is the property or \<^verbatim>\<open>undefined\<close>, on every other value it is \<^verbatim>\<open>undefined\<close>.
  The TypeError's wording is the engine's (here V8's); nothing below depends on it.
\<close>

definition null_deref_message :: "string \<Rightarrow> string" where
  "null_deref_message p =
     ''Cannot read properties of null (reading '' @ [CHR 0x27] @ p @ [CHR 0x27] @ '')''"

fun get_prop :: "json \<Rightarrow> string \<Rightarrow> thrown + json option" where
  "get_prop JNull p = Inl (Error (null_deref_message p))"
| "get_prop (JObj ps) p = Inr (map_of ps p)"
| "get_prop (JBool b) p = Inr None"
| "get_prop (JNum n) p = Inr None"
| "get_prop (JStr s) p = Inr None"
| "get_prop (JArr xs) p = Inr None"

text \<open>\<^verbatim>\<open>error instanceof Error ? error.message : fallback\<close>\<close>

fun message_or :: "thrown \<Rightarrow> string \<Rightarrow> string" where
  "message_or (Error m) fallback = m"
| "message_or (Thrown v) fallback = fallback"


section \<open>The environment: HTTP transport, console, clock, confirmation dialog\<close>

datatype http_method = GET | POST | DELETE

text \<open>
  A request as handed to \<^verbatim>\<open>fetch\<close>. The body is the value given to
  \<^verbatim>\<open>JSON.stringify\<close> (the serialiser is the platform's); \<open>None\<close> where the call
  passes no body.
\<close>

record request =
  req_method :: http_method
  url :: string
  headers :: "(string \<times> string) list"
  body :: "json option"

text \<open>
  A response, by what the client reads of it: the status code, and what
  \<^verbatim>\<open>response.json()\<close> settles to (a parsed value, or the parse failure).
\<close>

record response =
  status :: nat
  json_result :: "thrown + json"

text \<open>\<^verbatim>\<open>response.ok\<close>, as the Fetch standard defines it: the status is in 200..299.\<close>

definition ok :: "response \<Rightarrow> bool" where
  "ok r = (200 \<le> status r \<and> status r \<le> 299)"

datatype fetch_outcome = Rejected thrown | Resolved response

text \<open>
  The world a call runs in. \<open>respond\<close> is the backend and the network together: what
  a request gets, given the requests issued before it (so answers may change over time).
  \<open>sent\<close> logs every \<^verbatim>\<open>fetch\<close>, \<open>console\<close> every \<^verbatim>\<open>console.error\<close>, \<open>prompts\<close>
  every \<^verbatim>\<open>confirm\<close> dialog; \<open>clock\<close> is what \<^verbatim>\<open>new Date().toISOString()\<close> gives.
\<close>

record world =
  respond :: "request list \<Rightarrow> request \<Rightarrow> fetch_outcome"
  sent :: "request list"
  console :: "(string \<times> thrown) list"
  clock :: string
  confirm_reply :: "string \<Rightarrow> bool"
  prompts :: "string list"

text \<open>A computation that may throw, over a state \<open>'s\<close>.\<close>

type_synonym ('s, 'a) js = "'s \<Rightarrow> (thrown + 'a) \<times> 's"

definition return_js :: "'a \<Rightarrow> ('s, 'a) js" where
  "return_js x = (\<lambda>s. (Inr x, s))"

definition throw_js :: "thrown \<Rightarrow> ('s, 'a) js" where
  "throw_js e = (\<lambda>s. (Inl e, s))"

definition bind_js :: "('s, 'a) js \<Rightarrow> ('a \<Rightarrow> ('s, 'b) js) \<Rightarrow> ('s, 'b) js" where
  "bind_js m f = (\<lambda>s. case m s of (Inl e, s') \<Rightarrow> (Inl e, s') | (Inr x, s') \<Rightarrow> f x s')"

definition try_catch :: "('s, 'a) js \<Rightarrow> (thrown \<Rightarrow> ('s, 'a) js) \<Rightarrow> ('s, 'a) js" where
  "try_catch m handler =
     (\<lambda>s. case m s of (Inl e, s') \<Rightarrow> handler e s' | (Inr x, s') \<Rightarrow> (Inr x, s'))"

definition try_finally :: "('s, 'a) js \<Rightarrow> ('s, unit) js \<Rightarrow> ('s, 'a) js" where
  "try_finally m fin =
     (\<lambda>s. case m s of (r, s') \<Rightarrow>
        (case fin s' of (Inl e, s'') \<Rightarrow> (Inl e, s'') | (Inr u, s'') \<Rightarrow> (r, s'')))"

text \<open>A thrown-or-value result lifted into a computation.\<close>

definition lift_js :: "thrown + 'a \<Rightarrow> ('s, 'a) js" where
  "lift_js r = (\<lambda>s. (r, s))"

definition fetch :: "request \<Rightarrow> (world, response) js" where
  "fetch req =
     (\<lambda>w. (case respond w (sent w) req of Rejected e \<Rightarrow> Inl e | Resolved r \<Rightarrow> Inr r,
           w\<lparr>sent := sent w @ [req]\<rparr>))"

definition console_error :: "string \<Rightarrow> thrown \<Rightarrow> (world, unit) js" where
  "console_error label e = (\<lambda>w. (Inr (), w\<lparr>console := console w @ [(label, e)]\<rparr>))"

definition confirm :: "string \<Rightarrow> (world, bool) js" where
  "confirm msg = (\<lambda>w. (Inr (confirm_reply w msg), w\<lparr>prompts := prompts w @ [msg]\<rparr>))"


section \<open>The request records of \<^verbatim>\<open>services/github.ts\<close>\<close>

record GitHubConfig =
  token :: string
  username :: string

record GitHubRepository =
  name :: string
  description :: string
  "private" :: bool
  auto_init :: "bool option"
  gitignore_template :: "string option"

record GitHubUpdateRequest =
  repo_name :: string
  source_dir :: string
  include_patterns :: "string list option"
  exclude_patterns :: "string list option"

record GitHubExtractRequest =
  source_dir :: string
  repo_name :: string
  description :: string
  "private" :: bool
  include_patterns :: "string list option"
  exclude_patterns :: "string list option"

text \<open>
  The value \<^verbatim>\<open>JSON.stringify\<close> serialises for each record: the properties in
  declaration order, an absent optional property left out.
\<close>

definition optional :: "string \<Rightarrow> ('a \<Rightarrow> json) \<Rightarrow> 'a option \<Rightarrow> (string \<times> json) list" where
  "optional key f v = (case v of None \<Rightarrow> [] | Some x \<Rightarrow> [(key, f x)])"

definition patterns_json :: "string list \<Rightarrow> json" where
  "patterns_json ps = JArr (map JStr ps)"

definition config_json :: "GitHubConfig \<Rightarrow> json" where
  "config_json config = JObj [(''token'', JStr (token config)), (''username'', JStr (username config))]"

definition repository_json :: "GitHubRepository \<Rightarrow> json" where
  "repository_json repo =
     JObj ([(''name'', JStr (name repo)),
            (''description'', JStr (GitHubRepository.description repo)),
            (''private'', JBool (GitHubRepository.private repo))]
           @ optional ''auto_init'' JBool (auto_init repo)
           @ optional ''gitignore_template'' JStr (gitignore_template repo))"

definition extract_request_json :: "GitHubExtractRequest \<Rightarrow> json" where
  "extract_request_json req =
     JObj ([(''source_dir'', JStr (source_dir req)),
            (''repo_name'', JStr (repo_name req)),
            (''description'', JStr (description req)),
            (''private'', JBool (private req))]
           @ optional ''include_patterns'' patterns_json (include_patterns req)
           @ optional ''exclude_patterns'' patterns_json (exclude_patterns req))"

definition update_request_json :: "GitHubUpdateRequest \<Rightarrow> json" where
  "update_request_json req =
     JObj ([(''repo_name'', JStr (GitHubUpdateRequest.repo_name req)),
            (''source_dir'', JStr (GitHubUpdateRequest.source_dir req))]
           @ optional ''include_patterns'' patterns_json (GitHubUpdateRequest.include_patterns req)
           @ optional ''exclude_patterns'' patterns_json (GitHubUpdateRequest.exclude_patterns req))"


section \<open>The client: class \<^verbatim>\<open>GitHubService\<close>\<close>

text \<open>The private field the constructor sets; nothing assigns it again.\<close>

definition baseUrl :: string where
  "baseUrl = ''http://localhost:8000/github''"

text \<open>\<^verbatim>\<open>fetch(url)\<close>: a GET without headers or body.\<close>

definition get_request :: "string \<Rightarrow> request" where
  "get_request u = \<lparr>req_method = GET, url = u, headers = [], body = None\<rparr>"

text \<open>\<^verbatim>\<open>fetch(url, {method: 'POST', headers: {'Content-Type': 'application/json'}, body: JSON.stringify(v)})\<close>\<close>

definition post_request :: "string \<Rightarrow> json \<Rightarrow> request" where
  "post_request u v =
     \<lparr>req_method = POST, url = u, headers = [(''Content-Type'', ''application/json'')], body = Some v\<rparr>"

text \<open>\<^verbatim>\<open>fetch(url, {method: 'DELETE'})\<close>\<close>

definition delete_request :: "string \<Rightarrow> request" where
  "delete_request u = \<lparr>req_method = DELETE, url = u, headers = [], body = None\<rparr>"

text \<open>
  \<^verbatim>\<open>if (!response.ok) { throw new Error(data.detail || fallback); }\<close>:
  \<^verbatim>\<open>data.detail\<close> is read only when the response is not ok.
\<close>

definition throw_unless_ok :: "response \<Rightarrow> json \<Rightarrow> string \<Rightarrow> ('s, unit) js" where
  "throw_unless_ok rsp data fallback =
     (if \<not> ok rsp
      then bind_js (lift_js (get_prop data ''detail''))
             (\<lambda>detail. throw_js (new_Error (js_or detail (JStr fallback))))
      else return_js ())"

definition configure :: "GitHubConfig \<Rightarrow> (world, json) js" where
  "configure config =
     try_catch
       (bind_js (fetch (post_request (baseUrl @ ''/configure'') (config_json config))) (\<lambda>rsp.
        bind_js (lift_js (json_result rsp)) (\<lambda>data.
        bind_js (throw_unless_ok rsp data ''Failed to configure GitHub'') (\<lambda>_.
        return_js data))))
       (\<lambda>error.
        bind_js (console_error ''GitHub configuration error:'' error) (\<lambda>_.
        throw_js error))"

definition getStatus :: "(world, json) js" where
  "getStatus =
     try_catch
       (bind_js (fetch (get_request (baseUrl @ ''/status''))) (\<lambda>rsp.
        bind_js (lift_js (json_result rsp)) (\<lambda>data.
        bind_js (throw_unless_ok rsp data ''Failed to get GitHub status'') (\<lambda>_.
        return_js data))))
       (\<lambda>error.
        bind_js (console_error ''GitHub status error:'' error) (\<lambda>_.
        return_js (JObj [(''configured'', JBool False),
                         (''error'', JStr (message_or error ''Unknown error''))])))"

definition createRepository :: "GitHubRepository \<Rightarrow> (world, json) js" where
  "createRepository repo =
     try_catch
       (bind_js (fetch (post_request (baseUrl @ ''/repositories'') (repository_json repo))) (\<lambda>rsp.
        bind_js (lift_js (json_result rsp)) (\<lambda>data.
        bind_js (throw_unless_ok rsp data ''Failed to create repository'') (\<lambda>_.
        return_js data))))
       (\<lambda>error.
        bind_js (console_error ''Create repository error:'' error) (\<lambda>_.
        throw_js error))"

definition listRepositories :: "(world, json) js" where
  "listRepositories =
     try_catch
       (bind_js (fetch (get_request (baseUrl @ ''/repositories''))) (\<lambda>rsp.
        bind_js (lift_js (json_result rsp)) (\<lambda>data.
        bind_js (throw_unless_ok rsp data ''Failed to list repositories'') (\<lambda>_.
        return_js data))))
       (\<lambda>error.
        bind_js (console_error ''List repositories error:'' error) (\<lambda>_.
        throw_js error))"

definition getRepository :: "string \<Rightarrow> (world, json) js" where
  "getRepository repoName =
     try_catch
       (bind_js (fetch (get_request (baseUrl @ ''/repositories/'' @ repoName))) (\<lambda>rsp.
        bind_js (lift_js (json_result rsp)) (\<lambda>data.
        bind_js (throw_unless_ok rsp data ''Failed to get repository'') (\<lambda>_.
        return_js data))))
       (\<lambda>error.
        bind_js (console_error ''Get repository error:'' error) (\<lambda>_.
        throw_js error))"

definition extractAndPush :: "GitHubExtractRequest \<Rightarrow> (world, json) js" where
  "extractAndPush req =
     try_catch
       (bind_js (fetch (post_request (baseUrl @ ''/extract-and-push'') (extract_request_json req))) (\<lambda>rsp.
        bind_js (lift_js (json_result rsp)) (\<lambda>data.
        bind_js (throw_unless_ok rsp data ''Failed to extract and push'') (\<lambda>_.
        return_js data))))
       (\<lambda>error.
        bind_js (console_error ''Extract and push error:'' error) (\<lambda>_.
        throw_js error))"

definition updateRepository :: "GitHubUpdateRequest \<Rightarrow> (world, json) js" where
  "updateRepository req =
     try_catch
       (bind_js (fetch (post_request (baseUrl @ ''/update-repository'') (update_request_json req))) (\<lambda>rsp.
        bind_js (lift_js (json_result rsp)) (\<lambda>data.
        bind_js (throw_unless_ok rsp data ''Failed to update repository'') (\<lambda>_.
        return_js data))))
       (\<lambda>error.
        bind_js (console_error ''Update repository error:'' error) (\<lambda>_.
        throw_js error))"

definition deleteRepository :: "string \<Rightarrow> (world, json) js" where
  "deleteRepository repoName =
     try_catch
       (bind_js (fetch (delete_request (baseUrl @ ''/repositories/'' @ repoName))) (\<lambda>rsp.
        bind_js (lift_js (json_result rsp)) (\<lambda>data.
        bind_js (throw_unless_ok rsp data ''Failed to delete repository'') (\<lambda>_.
        return_js data))))
       (\<lambda>error.
        bind_js (console_error ''Delete repository error:'' error) (\<lambda>_.
        throw_js error))"

text \<open>
  \<^verbatim>\<open>async quickExtract(repoName: string, description: string = '', private: boolean = false)\<close>
  names its third parameter \<^verbatim>\<open>private\<close> (line 251) and reads it in the request literal
  (\<^verbatim>\<open>private: private\<close>, line 256). A class body is strict code, and in strict code
  \<^verbatim>\<open>private\<close> is a reserved word that cannot name a parameter or be read as an
  identifier: the method is an early SyntaxError. It is refused before it can run, so a
  call builds no request, reads no clock and never reaches \<open>extractAndPush\<close>. The model
  records a call as that failure, with the world left as it is; the message is the
  engine's wording (here V8's), and nothing below depends on it.
\<close>

definition quickExtract :: "string \<Rightarrow> string option \<Rightarrow> bool option \<Rightarrow> (world, json) js" where
  "quickExtract repoName description_arg private_arg =
     throw_js (Error ''Unexpected strict mode reserved word'')"

definition validateToken :: "string \<Rightarrow> (world, bool) js" where
  "validateToken tok =
     try_catch
       (bind_js (fetch (post_request (baseUrl @ ''/configure'')
                          (JObj [(''token'', JStr tok), (''username'', JStr ''test'')]))) (\<lambda>rsp.
        return_js (ok rsp)))
       (\<lambda>error. return_js False)"


section \<open>The repository panel: component \<^verbatim>\<open>GitHubOperations\<close>\<close>

text \<open>
  The component's state, as far as \<open>loadRepositories\<close> and \<open>handleDeleteRepository\<close>
  touch it. Each cell holds whatever value its setter was given (the declared types are
  not checked at run time); \<open>JNull\<close> is \<^verbatim>\<open>null\<close>.
\<close>

record ops_state =
  repositories :: json
  loading :: bool
  error :: json
  success :: json

text \<open>The \<^verbatim>\<open>useState\<close> initial values.\<close>

definition initial_ops_state :: ops_state where
  "initial_ops_state = \<lparr>repositories = JArr [], loading = False, error = JNull, success = JNull\<rparr>"

text \<open>A handler runs over the component's state and the world.\<close>

definition in_world :: "(world, 'a) js \<Rightarrow> (ops_state \<times> world, 'a) js" where
  "in_world m = (\<lambda>(st, w). case m w of (r, w') \<Rightarrow> (r, (st, w')))"

definition setRepositories :: "json \<Rightarrow> (ops_state \<times> world, unit) js" where
  "setRepositories v = (\<lambda>(st, w). (Inr (), (st\<lparr>repositories := v\<rparr>, w)))"

definition setLoading :: "bool \<Rightarrow> (ops_state \<times> world, unit) js" where
  "setLoading b = (\<lambda>(st, w). (Inr (), (st\<lparr>loading := b\<rparr>, w)))"

definition setError :: "json \<Rightarrow> (ops_state \<times> world, unit) js" where
  "setError v = (\<lambda>(st, w). (Inr (), (st\<lparr>error := v\<rparr>, w)))"

definition setSuccess :: "json \<Rightarrow> (ops_state \<times> world, unit) js" where
  "setSuccess v = (\<lambda>(st, w). (Inr (), (st\<lparr>success := v\<rparr>, w)))"

text \<open>
  \<^verbatim>\<open>if (result.success && result.repositories) { setRepositories(result.repositories); }\<close>:
  \<^verbatim>\<open>result.repositories\<close> is read only when \<^verbatim>\<open>result.success\<close> is truthy, and the
  setter receives the value the test has just read.
\<close>

definition loadRepositories :: "(ops_state \<times> world, unit) js" where
  "loadRepositories =
     try_finally
       (try_catch
          (bind_js (setLoading True) (\<lambda>_.
           bind_js (in_world listRepositories) (\<lambda>result.
           bind_js (lift_js (get_prop result ''success'')) (\<lambda>result_success.
           if truthy_opt result_success
           then bind_js (lift_js (get_prop result ''repositories'')) (\<lambda>result_repositories.
                  case result_repositories of
                    None \<Rightarrow> return_js ()
                  | Some v \<Rightarrow> if truthy v then setRepositories v else return_js ())
           else return_js ()))))
          (\<lambda>error.
           bind_js (in_world (console_error ''Failed to load repositories:'' error)) (\<lambda>_.
           setError (JStr ''Failed to load repositories''))))
       (setLoading False)"

definition handleDeleteRepository :: "string \<Rightarrow> (ops_state \<times> world, unit) js" where
  "handleDeleteRepository repoName =
     bind_js (in_world (confirm (''Are you sure you want to delete the repository \"'' @ repoName
                                 @ ''\"? This action cannot be undone.''))) (\<lambda>confirmed.
     if \<not> confirmed then return_js ()
     else
       try_finally
         (try_catch
            (bind_js (setLoading True) (\<lambda>_.
             bind_js (setError JNull) (\<lambda>_.
             bind_js (setSuccess JNull) (\<lambda>_.
             bind_js (in_world (deleteRepository repoName)) (\<lambda>result.
             bind_js (lift_js (get_prop result ''success'')) (\<lambda>result_success.
             if truthy_opt result_success
             then bind_js (setSuccess (JStr (''Repository \"'' @ repoName
                                             @ ''\" deleted successfully!''))) (\<lambda>_.
                  loadRepositories)
             else bind_js (lift_js (get_prop result ''error'')) (\<lambda>result_error.
                  setError (js_or result_error (JStr ''Failed to delete repository'')))))))))
            (\<lambda>error.
             bind_js (in_world (console_error ''Delete repository error:'' error)) (\<lambda>_.
             setError (JStr (message_or error ''Failed to delete repository'')))))
         (setLoading False))"


section \<open>Vocabulary for the properties\<close>

text \<open>What the next \<^verbatim>\<open>fetch\<close> of \<open>req\<close> gets in the world \<open>w\<close>.\<close>

definition reply :: "world \<Rightarrow> request \<Rightarrow> fetch_outcome" where
  "reply w req = respond w (sent w) req"

text \<open>\<^verbatim>\<open>(await call).configured\<close>, as the pages read it off a status.\<close>

definition configured_of :: "thrown + json \<Rightarrow> thrown + json option" where
  "configured_of r = (case r of Inl e \<Rightarrow> Inl e | Inr v \<Rightarrow> get_prop v ''configured'')"

text \<open>A result that is a raised \<^verbatim>\<open>Error\<close> instance, whatever its message.\<close>

definition raises_Error :: "thrown + 'a \<Rightarrow> bool" where
  "raises_Error r = (case r of Inl (Error m) \<Rightarrow> True | Inl (Thrown v) \<Rightarrow> False | Inr x \<Rightarrow> False)"

text \<open>
  The error policy in the specification's words (section 4.1), for a call that sends
  \<open>req\<close> and has the fallback phrase \<open>fallback\<close>. A transport failure (rejected fetch,
  unparsable body) is raised as it is. A 2xx response with a parsed body returns that
  body. A non-2xx response with a parsed body always raises an \<^verbatim>\<open>Error\<close>: with the
  body's \<^verbatim>\<open>detail\<close> as the message when that is a non-empty string; with the fallback
  phrase when there is no \<^verbatim>\<open>detail\<close> to use, which is when the body is an object
  without one, when the body is a boolean, number, string or array, and when
  \<^verbatim>\<open>detail\<close> is falsy (the empty string, \<^verbatim>\<open>null\<close>, \<^verbatim>\<open>false\<close>, zero); and with
  some message when \<^verbatim>\<open>detail\<close> is any other value or the body is \<^verbatim>\<open>null\<close>. This
  definition is the specification's side of the comparison; the calls above are the
  source's side.
\<close>

definition error_policy :: "(world, json) js \<Rightarrow> request \<Rightarrow> string \<Rightarrow> world \<Rightarrow> bool" where
  "error_policy call req fallback w =
     (case reply w req of
        Rejected e \<Rightarrow> fst (call w) = Inl e
      | Resolved r \<Rightarrow>
          (case json_result r of
             Inl e \<Rightarrow> fst (call w) = Inl e
           | Inr data \<Rightarrow>
               if ok r then fst (call w) = Inr data
               else (case data of
                       JNull \<Rightarrow> raises_Error (fst (call w))
                     | JObj ps \<Rightarrow>
                         (case map_of ps ''detail'' of
                            None \<Rightarrow> fst (call w) = Inl (Error fallback)
                          | Some (JStr m) \<Rightarrow>
                              fst (call w) = Inl (Error (if m = [] then fallback else m))
                          | Some v \<Rightarrow>
                              if truthy v then raises_Error (fst (call w))
                              else fst (call w) = Inl (Error fallback))
                     | other \<Rightarrow> fst (call w) = Inl (Error fallback))))"

text \<open>
  What each raising call makes of the outcome of its one fetch: the \<^verbatim>\<open>try\<close> block
  that \<open>configure\<close>, \<open>createRepository\<close>, \<open>listRepositories\<close>, \<open>getRepository\<close>,
  \<open>extractAndPush\<close>, \<open>updateRepository\<close> and \<open>deleteRepository\<close> share, read as a
  function of the outcome (lemma \<open>call_result\<close> below).
\<close>

definition outcome_result :: "string \<Rightarrow> fetch_outcome \<Rightarrow> thrown + json" where
  "outcome_result fallback out =
     (case out of
        Rejected e \<Rightarrow> Inl e
      | Resolved r \<Rightarrow>
          (case json_result r of
             Inl e \<Rightarrow> Inl e
           | Inr data \<Rightarrow>
               if ok r then Inr data
               else (case get_prop data ''detail'' of
                       Inl e \<Rightarrow> Inl e
                     | Inr detail \<Rightarrow> Inl (new_Error (js_or detail (JStr fallback))))))"

text \<open>The object \<open>getStatus\<close> returns from its \<^verbatim>\<open>catch\<close> block.\<close>

definition not_configured :: "string \<Rightarrow> json" where
  "not_configured m = JObj [(''configured'', JBool False), (''error'', JStr m)]"

text \<open>
  A fresh world in which every request meets the same outcome, for the concrete
  instances below.
\<close>

definition world_answering :: "fetch_outcome \<Rightarrow> world" where
  "world_answering out =
     \<lparr>respond = (\<lambda>history req. out), sent = [], console = [],
      clock = ''2024-05-01T12:00:00.000Z'', confirm_reply = (\<lambda>msg. True), prompts = []\<rparr>"


section \<open>Properties\<close>

subsection \<open>The shared shape of the calls\<close>

lemmas js_defs = return_js_def throw_js_def bind_js_def try_catch_def try_finally_def
  lift_js_def fetch_def console_error_def throw_unless_ok_def

lemma call_result:
  "fst (try_catch
         (bind_js (fetch req) (\<lambda>rsp.
          bind_js (lift_js (json_result rsp)) (\<lambda>data.
          bind_js (throw_unless_ok rsp data fallback) (\<lambda>_.
          return_js data))))
         (\<lambda>error. bind_js (console_error label error) (\<lambda>_. throw_js error)) w)
   = outcome_result fallback (reply w req)"
  by (simp add: js_defs reply_def outcome_result_def split: fetch_outcome.splits sum.splits)

lemma call_sent:
  "sent (snd (try_catch
         (bind_js (fetch req) (\<lambda>rsp.
          bind_js (lift_js (json_result rsp)) (\<lambda>data.
          bind_js (throw_unless_ok rsp data fallback) (\<lambda>_.
          return_js data))))
         (\<lambda>error. bind_js (console_error label error) (\<lambda>_. throw_js error)) w))
   = sent w @ [req]"
  by (simp add: js_defs split: fetch_outcome.splits sum.splits)

lemma call_prompts:
  "prompts (snd (try_catch
         (bind_js (fetch req) (\<lambda>rsp.
          bind_js (lift_js (json_result rsp)) (\<lambda>data.
          bind_js (throw_unless_ok rsp data fallback) (\<lambda>_.
          return_js data))))
         (\<lambda>error. bind_js (console_error label error) (\<lambda>_. throw_js error)) w))
   = prompts w"
  by (simp add: js_defs split: fetch_outcome.splits sum.splits)

lemma outcome_result_detail:
  "\<not> ok r \<Longrightarrow> json_result r = Inr (JObj ps) \<Longrightarrow> map_of ps ''detail'' = Some (JStr m) \<Longrightarrow> m \<noteq> []
   \<Longrightarrow> outcome_result fallback (Resolved r) = Inl (Error m)"
  by (simp add: outcome_result_def js_or_def new_Error_def)

lemma outcome_result_no_detail:
  "\<not> ok r \<Longrightarrow> json_result r = Inr (JObj ps) \<Longrightarrow> map_of ps ''detail'' = None
   \<Longrightarrow> outcome_result fallback (Resolved r) = Inl (Error fallback)"
  by (simp add: outcome_result_def js_or_def new_Error_def)

lemma outcome_result_not_ok:
  "\<not> ok r \<Longrightarrow> json_result r = Inr data
   \<Longrightarrow> \<exists>m. outcome_result fallback (Resolved r) = Inl (Error m)"
  by (cases data) (simp_all add: outcome_result_def new_Error_def)

lemma getStatus_result:
  "fst (getStatus w) =
     (case outcome_result ''Failed to get GitHub status''
             (reply w (get_request (baseUrl @ ''/status''))) of
        Inl e \<Rightarrow> Inr (not_configured (message_or e ''Unknown error''))
      | Inr data \<Rightarrow> Inr data)"
  by (simp add: getStatus_def js_defs reply_def outcome_result_def not_configured_def
           split: fetch_outcome.splits sum.splits)


subsection \<open>The status query\<close>

text \<open>
  Claim C1. \<open>getStatus\<close> never raises. Whatever the HTTP call comes to, it returns a
  value: a rejected fetch or an unparsable body with message \<open>m\<close> gives
  \<^verbatim>\<open>{configured: false, error: m}\<close>; a non-2xx response gives that object with the
  body's \<^verbatim>\<open>detail\<close> (a non-empty string) as the message, or with the phrase
  "Failed to get GitHub status" when the body has no \<^verbatim>\<open>detail\<close>; a 2xx response with a
  parsed body gives that body; and in every case other than the last the result is of
  the form \<^verbatim>\<open>{configured: false, error: m}\<close>.
\<close>

theorem getStatus_never_raises:
  "(\<exists>v. fst (getStatus w) = Inr v)
   \<and> (\<forall>m. reply w (get_request (baseUrl @ ''/status'')) = Rejected (Error m)
          \<longrightarrow> fst (getStatus w) = Inr (not_configured m))
   \<and> (\<forall>r m. reply w (get_request (baseUrl @ ''/status'')) = Resolved r
            \<and> json_result r = Inl (Error m)
          \<longrightarrow> fst (getStatus w) = Inr (not_configured m))
   \<and> (\<forall>r ps m. reply w (get_request (baseUrl @ ''/status'')) = Resolved r \<and> \<not> ok r
            \<and> json_result r = Inr (JObj ps) \<and> map_of ps ''detail'' = Some (JStr m) \<and> m \<noteq> []
          \<longrightarrow> fst (getStatus w) = Inr (not_configured m))
   \<and> (\<forall>r ps. reply w (get_request (baseUrl @ ''/status'')) = Resolved r \<and> \<not> ok r
            \<and> json_result r = Inr (JObj ps) \<and> map_of ps ''detail'' = None
          \<longrightarrow> fst (getStatus w) = Inr (not_configured ''Failed to get GitHub status''))
   \<and> (\<forall>r data. reply w (get_request (baseUrl @ ''/status'')) = Resolved r \<and> ok r
            \<and> json_result r = Inr data
          \<longrightarrow> fst (getStatus w) = Inr data)
   \<and> ((\<exists>r data. reply w (get_request (baseUrl @ ''/status'')) = Resolved r \<and> ok r
            \<and> json_result r = Inr data)
        \<or> (\<exists>m. fst (getStatus w) = Inr (not_configured m)))"
proof -
  let ?out = "reply w (get_request (baseUrl @ ''/status''))"
  have res: "fst (getStatus w) =
     (case outcome_result ''Failed to get GitHub status'' ?out of
        Inl e \<Rightarrow> Inr (not_configured (message_or e ''Unknown error''))
      | Inr data \<Rightarrow> Inr data)"
    by (rule getStatus_result)
  have c1: "\<exists>v. fst (getStatus w) = Inr v"
    by (simp add: res split: sum.splits)
  have c2: "\<forall>m. ?out = Rejected (Error m) \<longrightarrow> fst (getStatus w) = Inr (not_configured m)"
    by (simp add: res outcome_result_def)
  have c3: "\<forall>r m. ?out = Resolved r \<and> json_result r = Inl (Error m)
              \<longrightarrow> fst (getStatus w) = Inr (not_configured m)"
    by (simp add: res outcome_result_def)
  have c4: "\<forall>r ps m. ?out = Resolved r \<and> \<not> ok r
            \<and> json_result r = Inr (JObj ps) \<and> map_of ps ''detail'' = Some (JStr m) \<and> m \<noteq> []
          \<longrightarrow> fst (getStatus w) = Inr (not_configured m)"
    by (simp add: res outcome_result_detail)
  have c5: "\<forall>r ps. ?out = Resolved r \<and> \<not> ok r
            \<and> json_result r = Inr (JObj ps) \<and> map_of ps ''detail'' = None
          \<longrightarrow> fst (getStatus w) = Inr (not_configured ''Failed to get GitHub status'')"
    by (simp add: res outcome_result_no_detail)
  have c6: "\<forall>r data. ?out = Resolved r \<and> ok r \<and> json_result r = Inr data
          \<longrightarrow> fst (getStatus w) = Inr data"
    by (simp add: res outcome_result_def)
  have c7: "(\<exists>r data. ?out = Resolved r \<and> ok r \<and> json_result r = Inr data)
        \<or> (\<exists>m. fst (getStatus w) = Inr (not_configured m))"
  proof (cases ?out)
    case (Rejected e)
    then show ?thesis by (auto simp add: res outcome_result_def)
  next
    case (Resolved r)
    show ?thesis
    proof (cases "json_result r")
      case (Inl e)
      with Resolved show ?thesis by (auto simp add: res outcome_result_def)
    next
      case (Inr data)
      show ?thesis
      proof (cases "ok r")
        case True
        with Resolved Inr show ?thesis by simp
      next
        case False
        from outcome_result_not_ok [OF False Inr]
        obtain m where "outcome_result ''Failed to get GitHub status'' (Resolved r) = Inl (Error m)"
          by blast
        with Resolved show ?thesis by (auto simp add: res)
      qed
    qed
  qed
  from c1 c2 c3 c4 c5 c6 c7 show ?thesis by blast
qed

theorem getStatus_never_raises_witness:
  "fst (getStatus (world_answering (Rejected (Error ''Failed to fetch''))))
     = Inr (not_configured ''Failed to fetch'')
   \<and> fst (getStatus (world_answering
            (Resolved \<lparr>status = 200, json_result = Inl (Error ''Unexpected token <'')\<rparr>)))
     = Inr (not_configured ''Unexpected token <'')
   \<and> fst (getStatus (world_answering (Resolved \<lparr>status = 503,
            json_result = Inr (JObj [(''detail'', JStr ''GitHub not configured'')])\<rparr>)))
     = Inr (not_configured ''GitHub not configured'')
   \<and> fst (getStatus (world_answering (Resolved \<lparr>status = 500, json_result = Inr (JObj [])\<rparr>)))
     = Inr (not_configured ''Failed to get GitHub status'')
   \<and> fst (getStatus (world_answering (Resolved \<lparr>status = 200,
            json_result = Inr (JObj [(''configured'', JBool True), (''username'', JStr ''u1'')])\<rparr>)))
     = Inr (JObj [(''configured'', JBool True), (''username'', JStr ''u1'')])"
  using getStatus_never_raises [of "world_answering (Rejected (Error ''Failed to fetch''))"]
        getStatus_never_raises [of "world_answering
            (Resolved \<lparr>status = 200, json_result = Inl (Error ''Unexpected token <'')\<rparr>)"]
        getStatus_never_raises [of "world_answering (Resolved \<lparr>status = 503,
            json_result = Inr (JObj [(''detail'', JStr ''GitHub not configured'')])\<rparr>)"]
        getStatus_never_raises [of "world_answering
            (Resolved \<lparr>status = 500, json_result = Inr (JObj [])\<rparr>)"]
        getStatus_never_raises [of "world_answering (Resolved \<lparr>status = 200,
            json_result = Inr (JObj [(''configured'', JBool True), (''username'', JStr ''u1'')])\<rparr>)"]
  by (simp add: reply_def world_answering_def ok_def)


subsection \<open>Configuring\<close>

text \<open>
  Claim C3. For every credentials record (so in particular for one with a non-empty
  token and username), \<open>configure\<close> issues exactly one request: a POST to
  \<^verbatim>\<open>http://localhost:8000/github/configure\<close> whose JSON body is the record, its
  \<^verbatim>\<open>token\<close> and \<^verbatim>\<open>username\<close>; and when the backend answers with a 2xx status and a
  body that parses, \<open>configure\<close> returns the parsed body unchanged.
\<close>

theorem configure_posts_credentials:
  "sent (snd (configure config w))
     = sent w @ [\<lparr>req_method = POST, url = ''http://localhost:8000/github/configure'',
                  headers = [(''Content-Type'', ''application/json'')],
                  body = Some (JObj [(''token'', JStr (token config)),
                                     (''username'', JStr (username config))])\<rparr>]
   \<and> (\<forall>r data.
         reply w \<lparr>req_method = POST, url = ''http://localhost:8000/github/configure'',
                  headers = [(''Content-Type'', ''application/json'')],
                  body = Some (JObj [(''token'', JStr (token config)),
                                     (''username'', JStr (username config))])\<rparr> = Resolved r
         \<and> ok r \<and> json_result r = Inr data
         \<longrightarrow> fst (configure config w) = Inr data)"
  by (simp add: configure_def call_sent call_result post_request_def baseUrl_def config_json_def
        outcome_result_def)

theorem configure_posts_credentials_witness:
  "sent (snd (configure \<lparr>token = ''t1'', username = ''u1''\<rparr>
           (world_answering (Resolved \<lparr>status = 200,
              json_result = Inr (JObj [(''success'', JBool True), (''user'', JStr ''u1'')])\<rparr>))))
     = [\<lparr>req_method = POST, url = ''http://localhost:8000/github/configure'',
         headers = [(''Content-Type'', ''application/json'')],
         body = Some (JObj [(''token'', JStr ''t1''), (''username'', JStr ''u1'')])\<rparr>]
   \<and> fst (configure \<lparr>token = ''t1'', username = ''u1''\<rparr>
           (world_answering (Resolved \<lparr>status = 200,
              json_result = Inr (JObj [(''success'', JBool True), (''user'', JStr ''u1'')])\<rparr>)))
     = Inr (JObj [(''success'', JBool True), (''user'', JStr ''u1'')])"
  using configure_posts_credentials [of "\<lparr>token = ''t1'', username = ''u1''\<rparr>"
          "world_answering (Resolved \<lparr>status = 200,
              json_result = Inr (JObj [(''success'', JBool True), (''user'', JStr ''u1'')])\<rparr>)"]
  by (simp add: reply_def world_answering_def ok_def)


subsection \<open>Validating a token\<close>

lemma validateToken_result:
  "fst (validateToken tok w)
     = Inr (case reply w (post_request (baseUrl @ ''/configure'')
                            (JObj [(''token'', JStr tok), (''username'', JStr ''test'')])) of
              Rejected e \<Rightarrow> False | Resolved r \<Rightarrow> ok r)"
  by (simp add: validateToken_def js_defs reply_def split: fetch_outcome.splits)

lemma validateToken_sent:
  "sent (snd (validateToken tok w))
     = sent w @ [post_request (baseUrl @ ''/configure'')
                   (JObj [(''token'', JStr tok), (''username'', JStr ''test'')])]"
  by (simp add: validateToken_def js_defs split: fetch_outcome.splits)

text \<open>
  Claim C5. For every token, \<open>validateToken\<close> issues one POST to
  \<^verbatim>\<open>/configure\<close> under the base path whose body carries the token and the placeholder
  username \<^verbatim>\<open>test\<close>, and it returns a boolean that is true exactly when the fetch
  resolved with a status in 200..299; what the body says about the token plays no part.
\<close>

theorem validateToken_probe:
  "sent (snd (validateToken tok w))
     = sent w @ [\<lparr>req_method = POST, url = ''http://localhost:8000/github/configure'',
                  headers = [(''Content-Type'', ''application/json'')],
                  body = Some (JObj [(''token'', JStr tok), (''username'', JStr ''test'')])\<rparr>]
   \<and> (\<exists>b. fst (validateToken tok w) = Inr b)
   \<and> (fst (validateToken tok w) = Inr True
        \<longleftrightarrow> (\<exists>r. reply w \<lparr>req_method = POST, url = ''http://localhost:8000/github/configure'',
                    headers = [(''Content-Type'', ''application/json'')],
                    body = Some (JObj [(''token'', JStr tok), (''username'', JStr ''test'')])\<rparr>
                  = Resolved r \<and> 200 \<le> status r \<and> status r \<le> 299))"
  by (auto simp add: validateToken_result validateToken_sent post_request_def baseUrl_def ok_def
        split: fetch_outcome.splits)

theorem validateToken_probe_witness:
  "fst (validateToken ''ghp_x'' (world_answering (Resolved \<lparr>status = 200,
          json_result = Inr (JObj [(''success'', JBool False)])\<rparr>))) = Inr True
   \<and> fst (validateToken ''ghp_x'' (world_answering (Resolved \<lparr>status = 401,
          json_result = Inr (JObj [(''detail'', JStr ''Bad credentials'')])\<rparr>))) \<noteq> Inr True"
  using validateToken_probe [of "''ghp_x''" "world_answering (Resolved \<lparr>status = 200,
          json_result = Inr (JObj [(''success'', JBool False)])\<rparr>)"]
        validateToken_probe [of "''ghp_x''" "world_answering (Resolved \<lparr>status = 401,
          json_result = Inr (JObj [(''detail'', JStr ''Bad credentials'')])\<rparr>)"]
  by (simp add: reply_def world_answering_def)

text \<open>
  Claim C9. \<open>validateToken\<close> never raises and never reads the body: a rejected fetch
  gives \<open>False\<close>, a resolved one gives \<^verbatim>\<open>response.ok\<close>, and a 2xx response whose body
  does not parse gives \<open>True\<close>, while \<open>configure\<close> with the same token and the
  username \<^verbatim>\<open>test\<close> (hence the same request) raises that parse error.
\<close>

theorem validateToken_never_raises:
  "(\<exists>b. fst (validateToken tok w) = Inr b)
   \<and> (\<forall>e. reply w (post_request (baseUrl @ ''/configure'')
                     (JObj [(''token'', JStr tok), (''username'', JStr ''test'')])) = Rejected e
          \<longrightarrow> fst (validateToken tok w) = Inr False)
   \<and> (\<forall>r. reply w (post_request (baseUrl @ ''/configure'')
                     (JObj [(''token'', JStr tok), (''username'', JStr ''test'')])) = Resolved r
          \<longrightarrow> fst (validateToken tok w) = Inr (ok r))
   \<and> (\<forall>r e. reply w (post_request (baseUrl @ ''/configure'')
                     (JObj [(''token'', JStr tok), (''username'', JStr ''test'')])) = Resolved r
            \<and> ok r \<and> json_result r = Inl e
          \<longrightarrow> fst (validateToken tok w) = Inr True
              \<and> fst (configure \<lparr>token = tok, username = ''test''\<rparr> w) = Inl e)"
  by (simp add: validateToken_result configure_def call_result config_json_def outcome_result_def)

theorem validateToken_never_raises_witness:
  "fst (validateToken ''ghp_x'' (world_answering (Rejected (Error ''Failed to fetch'')))) = Inr False
   \<and> fst (validateToken ''ghp_x'' (world_answering (Resolved \<lparr>status = 200,
          json_result = Inl (Error ''Unexpected end of JSON input'')\<rparr>))) = Inr True
   \<and> fst (configure \<lparr>token = ''ghp_x'', username = ''test''\<rparr> (world_answering (Resolved \<lparr>status = 200,
          json_result = Inl (Error ''Unexpected end of JSON input'')\<rparr>)))
       = Inl (Error ''Unexpected end of JSON input'')"
  using validateToken_never_raises [of "''ghp_x''" "world_answering (Rejected (Error ''Failed to fetch''))"]
        validateToken_never_raises [of "''ghp_x''" "world_answering (Resolved \<lparr>status = 200,
          json_result = Inl (Error ''Unexpected end of JSON input'')\<rparr>)"]
  by (simp add: reply_def world_answering_def ok_def)


subsection \<open>Deleting a repository\<close>

lemma deleteRepository_declined:
  "\<not> confirm_reply w (''Are you sure you want to delete the repository \"'' @ repoName
                        @ ''\"? This action cannot be undone.'')
   \<Longrightarrow> handleDeleteRepository repoName (st, w)
       = (Inr (), (st, w\<lparr>prompts := prompts w
                          @ [''Are you sure you want to delete the repository \"'' @ repoName
                             @ ''\"? This action cannot be undone.'']\<rparr>))"
  by (simp add: handleDeleteRepository_def in_world_def confirm_def bind_js_def return_js_def)

text \<open>
  Claim C6. For every repository name, \<open>deleteRepository\<close> issues exactly one request,
  a DELETE to \<^verbatim>\<open>/repositories/{name}\<close> under the base path with the name appended as
  it is, and opens no confirmation dialog. The dialog is the panel's: a declined
  \<open>handleDeleteRepository\<close> has shown its prompt and sent nothing.
\<close>

theorem deleteRepository_one_request:
  "sent (snd (deleteRepository repoName w))
     = sent w @ [\<lparr>req_method = DELETE,
                  url = ''http://localhost:8000/github/repositories/'' @ repoName,
                  headers = [], body = None\<rparr>]
   \<and> prompts (snd (deleteRepository repoName w)) = prompts w
   \<and> (\<not> confirm_reply w (''Are you sure you want to delete the repository \"'' @ repoName
                            @ ''\"? This action cannot be undone.'')
        \<longrightarrow> sent (snd (snd (handleDeleteRepository repoName (st, w)))) = sent w
            \<and> prompts (snd (snd (handleDeleteRepository repoName (st, w))))
                = prompts w @ [''Are you sure you want to delete the repository \"'' @ repoName
                               @ ''\"? This action cannot be undone.''])"
  by (simp add: deleteRepository_def call_sent call_prompts delete_request_def baseUrl_def
        deleteRepository_declined)

theorem deleteRepository_one_request_witness:
  "sent (snd (deleteRepository ''a/../b?x=1'' (world_answering (Resolved \<lparr>status = 200,
           json_result = Inr (JObj [(''success'', JBool True)])\<rparr>))))
     = [\<lparr>req_method = DELETE, url = ''http://localhost:8000/github/repositories/a/../b?x=1'',
         headers = [], body = None\<rparr>]
   \<and> prompts (snd (deleteRepository ''a/../b?x=1'' (world_answering (Resolved \<lparr>status = 200,
           json_result = Inr (JObj [(''success'', JBool True)])\<rparr>)))) = []
   \<and> sent (snd (snd (handleDeleteRepository ''r1''
         (initial_ops_state,
          (world_answering (Rejected (Error ''unused'')))\<lparr>confirm_reply := (\<lambda>msg. False)\<rparr>)))) = []"
  using deleteRepository_one_request [of "''a/../b?x=1''" "world_answering (Resolved \<lparr>status = 200,
           json_result = Inr (JObj [(''success'', JBool True)])\<rparr>)" initial_ops_state]
    deleteRepository_one_request [of "''r1''"
      "(world_answering (Rejected (Error ''unused'')))\<lparr>confirm_reply := (\<lambda>msg. False)\<rparr>"
      initial_ops_state]
  by (simp add: world_answering_def)


subsection \<open>Quick extract\<close>

lemma quickExtract_fails:
  "quickExtract repoName description_arg private_arg w
     = (Inl (Error ''Unexpected strict mode reserved word''), w)"
  by (simp add: quickExtract_def throw_js_def)




subsection \<open>Polling the status twice\<close>

lemma getStatus_sent:
  "sent (snd (getStatus w)) = sent w @ [get_request (baseUrl @ ''/status'')]"
  by (simp add: getStatus_def js_defs split: fetch_outcome.splits sum.splits)

lemma getStatus_respond:
  "respond (snd (getStatus w)) = respond w"
  by (simp add: getStatus_def js_defs split: fetch_outcome.splits sum.splits)

lemma getStatus_reply_only:
  assumes "reply w' (get_request (baseUrl @ ''/status'')) = reply w (get_request (baseUrl @ ''/status''))"
  shows "fst (getStatus w') = fst (getStatus w)"
  unfolding getStatus_result assms ..

text \<open>
  Claim C8. Two \<open>getStatus\<close> calls in sequence, with a backend that answers the
  second status request as it answered the first, give the same result and so the same
  \<^verbatim>\<open>configured\<close> value. The client keeps nothing between calls: the result of
  \<open>getStatus\<close> is determined by what its one request meets.
\<close>

theorem getStatus_idempotent:
  "(respond w (sent w @ [get_request (baseUrl @ ''/status'')]) (get_request (baseUrl @ ''/status''))
      = respond w (sent w) (get_request (baseUrl @ ''/status''))
    \<longrightarrow> fst (getStatus (snd (getStatus w))) = fst (getStatus w)
        \<and> configured_of (fst (getStatus (snd (getStatus w)))) = configured_of (fst (getStatus w)))
   \<and> (\<forall>w'. reply w' (get_request (baseUrl @ ''/status''))
              = reply w (get_request (baseUrl @ ''/status''))
          \<longrightarrow> fst (getStatus w') = fst (getStatus w))"
proof -
  let ?q = "get_request (baseUrl @ ''/status'')"
  have same: "fst (getStatus (snd (getStatus w))) = fst (getStatus w)"
    if h: "respond w (sent w @ [?q]) ?q = respond w (sent w) ?q"
  proof -
    have "reply (snd (getStatus w)) ?q = respond w (sent w @ [?q]) ?q"
      unfolding reply_def getStatus_sent getStatus_respond ..
    also have "\<dots> = reply w ?q"
      unfolding reply_def by (rule h)
    finally show ?thesis by (rule getStatus_reply_only)
  qed
  show ?thesis
  proof (intro conjI impI allI)
    assume h: "respond w (sent w @ [?q]) ?q = respond w (sent w) ?q"
    from same [OF h] show "fst (getStatus (snd (getStatus w))) = fst (getStatus w)" .
    from same [OF h] show "configured_of (fst (getStatus (snd (getStatus w))))
            = configured_of (fst (getStatus w))"
      by (rule arg_cong)
  next
    fix w'
    assume "reply w' ?q = reply w ?q"
    then show "fst (getStatus w') = fst (getStatus w)" by (rule getStatus_reply_only)
  qed
qed

theorem getStatus_idempotent_witness:
  "configured_of (fst (getStatus (snd (getStatus (world_answering (Resolved \<lparr>status = 200,
       json_result = Inr (JObj [(''configured'', JBool True), (''username'', JStr ''u1'')])\<rparr>))))))
     = configured_of (fst (getStatus (world_answering (Resolved \<lparr>status = 200,
       json_result = Inr (JObj [(''configured'', JBool True), (''username'', JStr ''u1'')])\<rparr>))))
   \<and> configured_of (fst (getStatus (world_answering (Resolved \<lparr>status = 200,
       json_result = Inr (JObj [(''configured'', JBool True), (''username'', JStr ''u1'')])\<rparr>))))
     = Inr (Some (JBool True))"
proof -
  let ?w = "world_answering (Resolved \<lparr>status = 200,
       json_result = Inr (JObj [(''configured'', JBool True), (''username'', JStr ''u1'')])\<rparr>)"
  let ?q = "get_request (baseUrl @ ''/status'')"
  have h: "respond ?w (sent ?w @ [?q]) ?q = respond ?w (sent ?w) ?q"
    by (simp add: world_answering_def)
  from getStatus_idempotent [of ?w] h
  have same: "configured_of (fst (getStatus (snd (getStatus ?w)))) = configured_of (fst (getStatus ?w))"
    by blast
  have val: "configured_of (fst (getStatus ?w)) = Inr (Some (JBool True))"
    by (simp add: getStatus_result world_answering_def reply_def outcome_result_def ok_def
          configured_of_def)
  from same val show ?thesis by (intro conjI)
qed


subsection \<open>Loading the repository list\<close>

lemma listRepositories_ok:
  "reply w (get_request (baseUrl @ ''/repositories'')) = Resolved r \<Longrightarrow> ok r
   \<Longrightarrow> json_result r = Inr data
   \<Longrightarrow> listRepositories w
        = (Inr data, w\<lparr>sent := sent w @ [get_request (baseUrl @ ''/repositories'')]\<rparr>)"
  by (simp add: listRepositories_def js_defs reply_def)

lemmas ui_defs = in_world_def setRepositories_def setLoading_def setError_def setSuccess_def

lemma loadRepositories_no_field:
  assumes "listRepositories w = (Inr data, w')"
    and "\<forall>v. get_prop data ''repositories'' \<noteq> Inr (Some v)"
  shows "fst (loadRepositories (st, w)) = Inr ()"
    and "repositories (fst (snd (loadRepositories (st, w)))) = repositories st"
    and "loading (fst (snd (loadRepositories (st, w)))) = False"
  using assms
  by (cases data; simp add: loadRepositories_def ui_defs return_js_def throw_js_def bind_js_def
        try_catch_def try_finally_def lift_js_def console_error_def split: option.splits)+

lemma loadRepositories_object_no_field:
  assumes "listRepositories w = (Inr (JObj ps), w')"
    and "map_of ps ''repositories'' = None"
  shows "loadRepositories (st, w) = (Inr (), (st\<lparr>loading := False\<rparr>, w'))"
  using assms
  by (simp add: loadRepositories_def ui_defs return_js_def throw_js_def bind_js_def
        try_catch_def try_finally_def lift_js_def console_error_def split: option.splits)

text \<open>
  Claim C7. When the backend answers the list request with a 2xx status and a body
  that parses but offers no \<^verbatim>\<open>repositories\<close> property, \<open>listRepositories\<close> returns
  that body without raising, and \<open>loadRepositories\<close> neither raises nor touches its
  repository list: the list stays what it was, the empty list if it was the initial
  one, and the loading flag is off again. For a body that is an object nothing but the
  loading flag is written.
\<close>

theorem loadRepositories_absent_field:
  "reply w (get_request (baseUrl @ ''/repositories'')) = Resolved r \<and> ok r
     \<and> json_result r = Inr data \<and> (\<forall>v. get_prop data ''repositories'' \<noteq> Inr (Some v))
   \<longrightarrow> fst (listRepositories w) = Inr data
       \<and> fst (loadRepositories (st, w)) = Inr ()
       \<and> repositories (fst (snd (loadRepositories (st, w)))) = repositories st
       \<and> loading (fst (snd (loadRepositories (st, w)))) = False
       \<and> repositories (fst (snd (loadRepositories (initial_ops_state, w)))) = JArr []
       \<and> (\<forall>ps. data = JObj ps \<longrightarrow> fst (snd (loadRepositories (st, w))) = st\<lparr>loading := False\<rparr>)"
proof (intro impI, elim conjE)
  let ?w' = "w\<lparr>sent := sent w @ [get_request (baseUrl @ ''/repositories'')]\<rparr>"
  assume out: "reply w (get_request (baseUrl @ ''/repositories'')) = Resolved r"
    and ok: "ok r" and parsed: "json_result r = Inr data"
    and absent: "\<forall>v. get_prop data ''repositories'' \<noteq> Inr (Some v)"
  have listed: "listRepositories w = (Inr data, ?w')"
    using out ok parsed by (rule listRepositories_ok)
  have a: "fst (listRepositories w) = Inr data"
    by (simp add: listed)
  note b = loadRepositories_no_field [OF listed absent]
  have c: "repositories (fst (snd (loadRepositories (initial_ops_state, w)))) = JArr []"
    by (simp add: b(2) initial_ops_state_def)
  have d: "\<forall>ps. data = JObj ps \<longrightarrow> fst (snd (loadRepositories (st, w))) = st\<lparr>loading := False\<rparr>"
  proof (intro allI impI)
    fix ps
    assume obj: "data = JObj ps"
    with absent have "map_of ps ''repositories'' = None"
      by (cases "map_of ps ''repositories''") simp_all
    with listed obj show "fst (snd (loadRepositories (st, w))) = st\<lparr>loading := False\<rparr>"
      by (simp add: loadRepositories_object_no_field)
  qed
  from a b c d
  show "fst (listRepositories w) = Inr data
       \<and> fst (loadRepositories (st, w)) = Inr ()
       \<and> repositories (fst (snd (loadRepositories (st, w)))) = repositories st
       \<and> loading (fst (snd (loadRepositories (st, w)))) = False
       \<and> repositories (fst (snd (loadRepositories (initial_ops_state, w)))) = JArr []
       \<and> (\<forall>ps. data = JObj ps \<longrightarrow> fst (snd (loadRepositories (st, w))) = st\<lparr>loading := False\<rparr>)"
    by (intro conjI)
qed

theorem loadRepositories_absent_field_witness:
  "fst (listRepositories (world_answering (Resolved \<lparr>status = 200,
          json_result = Inr (JObj [(''success'', JBool True)])\<rparr>)))
     = Inr (JObj [(''success'', JBool True)])
   \<and> fst (snd (loadRepositories (initial_ops_state, world_answering (Resolved \<lparr>status = 200,
          json_result = Inr (JObj [(''success'', JBool True)])\<rparr>))))
     = \<lparr>repositories = JArr [], loading = False, error = JNull, success = JNull\<rparr>"
  using loadRepositories_absent_field [of "world_answering (Resolved \<lparr>status = 200,
          json_result = Inr (JObj [(''success'', JBool True)])\<rparr>)"
          "\<lparr>status = 200, json_result = Inr (JObj [(''success'', JBool True)])\<rparr>"
          "JObj [(''success'', JBool True)]" initial_ops_state]
  by (simp add: reply_def world_answering_def ok_def initial_ops_state_def)


subsection \<open>The error policy\<close>

lemma policy_of_outcome:
  "fst (call w) = outcome_result fallback (reply w req) \<Longrightarrow> error_policy call req fallback w"
  by (auto simp add: error_policy_def outcome_result_def js_or_def new_Error_def raises_Error_def
        null_deref_message_def
        split: fetch_outcome.splits sum.splits json.splits option.splits)





end
